theory Spec2Isabelle
  imports Complex_Main "HOL-Library.Sublist"
begin

section \<open>Python values and conventions\<close>

text \<open>
  The adapter (\<^verbatim>\<open>src/herd_notify_slack/adapter.py\<close>) moves values between Python
  dictionaries and the JSON documents of the Slack Web API. A value that \<^verbatim>\<open>json.loads\<close>
  returns, or that is stored in a payload dictionary, is a \<open>json\<close>. A number is an
  \<^verbatim>\<open>int\<close> or a \<^verbatim>\<open>float\<close>, the latter given by its value (the adapter computes with no
  number of a response; it only tests one for truth); a dictionary is an association list
  in insertion order, read with \<open>map_of\<close>.
\<close>

datatype json =
    JNull
  | JBool bool
  | JInt int
  | JFloat rat
  | JStr string
  | JArr "json list"
  | JObj "(string \<times> json) list"

type_synonym dict = "(string \<times> json) list"

text \<open>Python's truth value of an object, as \<^verbatim>\<open>if x:\<close> and \<^verbatim>\<open>not x\<close> test it.\<close>

fun truthy :: "json \<Rightarrow> bool" where
  "truthy JNull = False"
| "truthy (JBool b) = b"
| "truthy (JInt i) = (i \<noteq> 0)"
| "truthy (JFloat x) = (x \<noteq> 0)"
| "truthy (JStr s) = (s \<noteq> [])"
| "truthy (JArr xs) = (xs \<noteq> [])"
| "truthy (JObj kvs) = (kvs \<noteq> [])"

text \<open>\<^verbatim>\<open>d.get(k)\<close> is \<open>map_of d k\<close> (\<open>None\<close> when the key is absent);
  \<^verbatim>\<open>d.get(k, default)\<close> is \<open>dict_get d k default\<close>.\<close>

definition dict_get :: "dict \<Rightarrow> string \<Rightarrow> json \<Rightarrow> json" where
  "dict_get d k dflt = (case map_of d k of None \<Rightarrow> dflt | Some v \<Rightarrow> v)"

text \<open>\<^verbatim>\<open>d[k] = v\<close>: the value of an existing key is replaced where it stands, a new key
  goes to the end.\<close>

fun dict_set :: "string \<Rightarrow> json \<Rightarrow> dict \<Rightarrow> dict" where
  "dict_set k v [] = [(k, v)]"
| "dict_set k v ((k', v') # d) = (if k = k' then (k, v) # d else (k', v') # dict_set k v d)"

text \<open>\<^verbatim>\<open>result.get("ok")\<close> under \<^verbatim>\<open>not\<close>: an absent flag is \<^verbatim>\<open>None\<close>, which is false.\<close>

definition ok_flag :: "dict \<Rightarrow> bool" where
  "ok_flag d = (case map_of d ''ok'' of None \<Rightarrow> False | Some v \<Rightarrow> truthy v)"

text \<open>The truth value of an argument of type \<^verbatim>\<open>str | None\<close>: \<^verbatim>\<open>None\<close> and the
  empty string are false.\<close>

fun str_truthy :: "string option \<Rightarrow> bool" where
  "str_truthy None = False"
| "str_truthy (Some s) = (s \<noteq> [])"

text \<open>\<^verbatim>\<open>channel or self.default_channel\<close>.\<close>

fun str_or :: "string option \<Rightarrow> string \<Rightarrow> string" where
  "str_or None dflt = dflt"
| "str_or (Some s) dflt = (if s \<noteq> [] then s else dflt)"

text \<open>\<^verbatim>\<open>xs[:limit]\<close>: a negative bound counts from the end of the list.\<close>

definition slice_to :: "'a list \<Rightarrow> int \<Rightarrow> 'a list" where
  "slice_to xs limit =
     (if 0 \<le> limit then take (nat limit) xs else take (length xs - nat (- limit)) xs)"

text \<open>A list comprehension whose element expression may raise: the first exception ends
  the comprehension.\<close>

fun comprehension :: "('a \<Rightarrow> 'e + 'b) \<Rightarrow> 'a list \<Rightarrow> 'e + 'b list" where
  "comprehension f [] = Inr []"
| "comprehension f (x # xs) =
     (case f x of
        Inl e \<Rightarrow> Inl e
      | Inr y \<Rightarrow> (case comprehension f xs of Inl e \<Rightarrow> Inl e | Inr ys \<Rightarrow> Inr (y # ys)))"

subsection \<open>Formatting\<close>

text \<open>Decimal digits of a number, as \<^verbatim>\<open>str\<close> and the f-string conversions print an
  \<^verbatim>\<open>int\<close>.\<close>

definition digit :: "nat \<Rightarrow> char" where
  "digit n = ''0123456789'' ! (n mod 10)"

function str_nat :: "nat \<Rightarrow> string" where
  "str_nat n = (if n < 10 then [digit n] else str_nat (n div 10) @ [digit n])"
  by pat_completeness auto
termination
  by (relation "measure id") auto

declare str_nat.simps [simp del]

definition str_int :: "int \<Rightarrow> string" where
  "str_int i = (if i < 0 then CHR ''-'' # str_nat (nat (- i)) else str_nat (nat i))"

text \<open>\<^verbatim>\<open>f"{v}"\<close> of a value of the response: a string is inserted as it is, every other
  value through Python's \<^verbatim>\<open>repr\<close>, which is a parameter \<open>repr\<close> of the model.\<close>

definition format_value :: "(json \<Rightarrow> string) \<Rightarrow> json \<Rightarrow> string" where
  "format_value repr v = (case v of JStr s \<Rightarrow> s | _ \<Rightarrow> repr v)"

text \<open>\<^verbatim>\<open>datetime\<close>, and \<^verbatim>\<open>strftime("%Y-%m-%d")\<close> on it: the year zero-padded to four
  digits, the month and the day to two, as the Python documentation gives \<^verbatim>\<open>%Y\<close>,
  \<^verbatim>\<open>%m\<close> and \<^verbatim>\<open>%d\<close>. A \<^verbatim>\<open>datetime\<close> object is always true.\<close>

record datetime =
  year :: nat
  month :: nat
  day :: nat
  hour :: nat
  minute :: nat
  second :: nat
  microsecond :: nat


definition zero_pad :: "nat \<Rightarrow> string \<Rightarrow> string" where
  "zero_pad w s = replicate (w - length s) CHR ''0'' @ s"

definition strftime_Y_m_d :: "datetime \<Rightarrow> string" where
  "strftime_Y_m_d d =
     zero_pad 4 (str_nat (year d)) @ ''-'' @ zero_pad 2 (str_nat (month d)) @ ''-''
       @ zero_pad 2 (str_nat (day d))"

section \<open>The transport\<close>

text \<open>
  An outbound request: the URL up to the query string, the dictionary handed to
  \<^verbatim>\<open>urllib.parse.urlencode\<close> (empty for a POST), the dictionary handed to
  \<^verbatim>\<open>json.dumps\<close> as the body (\<open>None\<close> for a GET), and the headers.
\<close>

record request =
  url :: string
  query_params :: dict
  data :: "dict option"
  headers :: "(string \<times> string) list"

text \<open>
  What \<^verbatim>\<open>urlopen\<close>, \<^verbatim>\<open>resp.read()\<close> and \<^verbatim>\<open>json.loads\<close> do with a request: a parsed
  document, an \<^verbatim>\<open>HTTPError\<close> with its code and reason, or any other \<^verbatim>\<open>Exception\<close>
  with the text \<^verbatim>\<open>str(e)\<close> (a connection failure, a body that is not JSON).
\<close>

datatype transport_error = HTTPError int string | OtherException string

datatype remote = Parsed json | Raised transport_error

text \<open>The exceptions an operation of the adapter can end with.\<close>

datatype exn =
    RuntimeError string
  | KeyError string
  | AttributeError
  | TypeError
  | Transport transport_error

section \<open>The adapter\<close>

record SlackNotifyAdapter =
  token :: string
  default_channel :: string

record PostResult =
  pr_message_id :: json
  pr_channel :: json
  pr_timestamp :: json

record ThreadMessage =
  tm_author :: json
  tm_text :: json
  tm_timestamp :: json

subsection \<open>\<^verbatim>\<open>_api_call\<close>\<close>

definition api_request :: "SlackNotifyAdapter \<Rightarrow> string \<Rightarrow> dict \<Rightarrow> request" where
  "api_request self method payload =
     \<lparr>url = ''https://slack.com/api/'' @ method,
      query_params = [],
      data = Some payload,
      headers = [(''Authorization'', ''Bearer '' @ token self),
                 (''Content-Type'', ''application/json'')]\<rparr>"

definition api_call ::
  "(request \<Rightarrow> remote) \<Rightarrow> SlackNotifyAdapter \<Rightarrow> string \<Rightarrow> dict \<Rightarrow> exn + json" where
  "api_call urlopen self method payload =
     (case urlopen (api_request self method payload) of
        Parsed result \<Rightarrow> Inr result
      | Raised (HTTPError code reason) \<Rightarrow>
          Inl (RuntimeError (''HTTP error: '' @ str_int code @ '' '' @ reason))
      | Raised (OtherException e) \<Rightarrow> Inl (RuntimeError (''Request failed: '' @ e)))"

subsection \<open>\<^verbatim>\<open>post\<close> and \<^verbatim>\<open>post_thread\<close>\<close>

definition post_payload ::
  "SlackNotifyAdapter \<Rightarrow> string \<Rightarrow> string option \<Rightarrow> string option \<Rightarrow> string option \<Rightarrow> dict" where
  "post_payload self message channel username icon =
     (let channel' = str_or channel (default_channel self);
          payload = [(''channel'', JStr channel'), (''text'', JStr message)];
          payload = (case username of
                       Some u \<Rightarrow> if str_truthy username then dict_set ''username'' (JStr u) payload
                                 else payload
                     | None \<Rightarrow> payload);
          payload = (case icon of
                       Some i \<Rightarrow> if str_truthy icon then dict_set ''icon_emoji'' (JStr i) payload
                                 else payload
                     | None \<Rightarrow> payload)
      in payload)"

text \<open>The part of \<^verbatim>\<open>post\<close> and of \<^verbatim>\<open>post_thread\<close> after \<^verbatim>\<open>_api_call\<close> has returned
  (the two functions have the same text there).\<close>

definition post_result :: "(json \<Rightarrow> string) \<Rightarrow> json \<Rightarrow> exn + PostResult" where
  "post_result repr result =
     (case result of
        JObj d \<Rightarrow>
          if \<not> ok_flag d then
            Inl (RuntimeError
                  (''Slack API error: '' @ format_value repr (dict_get d ''error'' (JStr ''unknown error''))))
          else
            (case map_of d ''ts'' of
               None \<Rightarrow> Inl (KeyError ''ts'')
             | Some ts \<Rightarrow>
                 (case map_of d ''channel'' of
                    None \<Rightarrow> Inl (KeyError ''channel'')
                  | Some c \<Rightarrow> Inr \<lparr>pr_message_id = ts, pr_channel = c, pr_timestamp = ts\<rparr>))
      | _ \<Rightarrow> Inl AttributeError)"

definition post ::
  "(json \<Rightarrow> string) \<Rightarrow> (request \<Rightarrow> remote) \<Rightarrow> SlackNotifyAdapter \<Rightarrow> string \<Rightarrow> string option
     \<Rightarrow> string option \<Rightarrow> string option \<Rightarrow> exn + PostResult" where
  "post repr urlopen self message channel username icon =
     (case api_call urlopen self ''chat.postMessage''
             (post_payload self message channel username icon) of
        Inl e \<Rightarrow> Inl e
      | Inr result \<Rightarrow> post_result repr result)"

definition post_thread_payload ::
  "SlackNotifyAdapter \<Rightarrow> string \<Rightarrow> string \<Rightarrow> string option \<Rightarrow> dict" where
  "post_thread_payload self thread_id message channel =
     (let channel' = str_or channel (default_channel self)
      in [(''channel'', JStr channel'), (''text'', JStr message), (''thread_ts'', JStr thread_id)])"

definition post_thread ::
  "(json \<Rightarrow> string) \<Rightarrow> (request \<Rightarrow> remote) \<Rightarrow> SlackNotifyAdapter \<Rightarrow> string \<Rightarrow> string
     \<Rightarrow> string option \<Rightarrow> exn + PostResult" where
  "post_thread repr urlopen self thread_id message channel =
     (case api_call urlopen self ''chat.postMessage''
             (post_thread_payload self thread_id message channel) of
        Inl e \<Rightarrow> Inl e
      | Inr result \<Rightarrow> post_result repr result)"

subsection \<open>\<^verbatim>\<open>get_thread_replies\<close>\<close>

definition get_request :: "SlackNotifyAdapter \<Rightarrow> string \<Rightarrow> dict \<Rightarrow> request" where
  "get_request self endpoint params =
     \<lparr>url = ''https://slack.com/api/'' @ endpoint,
      query_params = params,
      data = None,
      headers = [(''Authorization'', ''Bearer '' @ token self)]\<rparr>"

text \<open>The element expression of the comprehension: \<^verbatim>\<open>msg.get\<close> exists on a dictionary
  only.\<close>

definition reply_message :: "json \<Rightarrow> exn + ThreadMessage" where
  "reply_message msg =
     (case msg of
        JObj m \<Rightarrow>
          Inr \<lparr>tm_author = dict_get m ''user'' (JStr ''unknown''),
               tm_text = dict_get m ''text'' (JStr ''''),
               tm_timestamp = dict_get m ''ts'' (JStr '''')\<rparr>
      | _ \<Rightarrow> Inl AttributeError)"

text \<open>The body of the \<^verbatim>\<open>try\<close> after the response is parsed. A \<^verbatim>\<open>messages\<close> value that is
  a string is sliced and iterated character by character; one that has no length, or a
  dictionary of more than one entry under a slice, raises (for the dictionary a
  \<^verbatim>\<open>TypeError\<close>, from Python 3.12 on a \<^verbatim>\<open>KeyError\<close>; the handler takes either).\<close>

definition replies_of :: "json \<Rightarrow> exn + ThreadMessage list" where
  "replies_of result =
     (case result of
        JObj d \<Rightarrow>
          if \<not> ok_flag d then Inr []
          else
            (case dict_get d ''messages'' (JArr []) of
               JArr messages \<Rightarrow>
                 (let replies = (if length messages > 1 then tl messages else [])
                  in comprehension reply_message replies)
             | JStr s \<Rightarrow> if length s > 1 then Inl AttributeError else Inr []
             | JObj kvs \<Rightarrow> if length kvs > 1 then Inl TypeError else Inr []
             | _ \<Rightarrow> Inl TypeError)
      | _ \<Rightarrow> Inl AttributeError)"

definition replies_request :: "SlackNotifyAdapter \<Rightarrow> string \<Rightarrow> string \<Rightarrow> request" where
  "replies_request self channel thread_id =
     get_request self ''conversations.replies''
       [(''channel'', JStr channel), (''ts'', JStr thread_id)]"

definition get_thread_replies ::
  "(request \<Rightarrow> remote) \<Rightarrow> SlackNotifyAdapter \<Rightarrow> string \<Rightarrow> string \<Rightarrow> exn + ThreadMessage list" where
  "get_thread_replies urlopen self channel thread_id =
     (let attempt = (case urlopen (replies_request self channel thread_id) of
                       Raised e \<Rightarrow> Inl (Transport e)
                     | Parsed result \<Rightarrow> replies_of result)
      in case attempt of Inl e \<Rightarrow> Inr [] | Inr replies \<Rightarrow> Inr replies)"

subsection \<open>\<^verbatim>\<open>search\<close>\<close>

definition search_query :: "string \<Rightarrow> string option \<Rightarrow> datetime option \<Rightarrow> string" where
  "search_query query channel since =
     (let search_query = query;
          search_query = (case channel of
                            Some c \<Rightarrow> if str_truthy channel then query @ '' in:'' @ c
                                      else search_query
                          | None \<Rightarrow> search_query);
          search_query = (case since of
                            Some d \<Rightarrow> search_query @ '' after:'' @ strftime_Y_m_d d
                          | None \<Rightarrow> search_query)
      in search_query)"

definition search_request ::
  "SlackNotifyAdapter \<Rightarrow> string \<Rightarrow> string option \<Rightarrow> datetime option \<Rightarrow> int \<Rightarrow> request" where
  "search_request self query channel since limit =
     get_request self ''search.messages''
       [(''query'', JStr (search_query query channel since)), (''count'', JInt (min limit 100))]"

definition match_message :: "json \<Rightarrow> exn + ThreadMessage" where
  "match_message msg =
     (case msg of
        JObj m \<Rightarrow>
          Inr \<lparr>tm_author = dict_get m ''user'' (dict_get m ''username'' (JStr ''unknown'')),
               tm_text = dict_get m ''text'' (JStr ''''),
               tm_timestamp = dict_get m ''ts'' (JStr '''')\<rparr>
      | _ \<Rightarrow> Inl AttributeError)"

definition matches_of :: "int \<Rightarrow> json \<Rightarrow> exn + ThreadMessage list" where
  "matches_of limit result =
     (case result of
        JObj d \<Rightarrow>
          if \<not> ok_flag d then Inr []
          else
            (case dict_get d ''messages'' (JObj []) of
               JObj m \<Rightarrow>
                 (case dict_get m ''matches'' (JArr []) of
                    JArr matches \<Rightarrow> comprehension match_message (slice_to matches limit)
                  | JStr s \<Rightarrow> if slice_to s limit = [] then Inr [] else Inl AttributeError
                  | _ \<Rightarrow> Inl TypeError)
             | _ \<Rightarrow> Inl AttributeError)
      | _ \<Rightarrow> Inl AttributeError)"

definition search ::
  "(request \<Rightarrow> remote) \<Rightarrow> SlackNotifyAdapter \<Rightarrow> string \<Rightarrow> string option \<Rightarrow> datetime option
     \<Rightarrow> int \<Rightarrow> exn + ThreadMessage list" where
  "search urlopen self query channel since limit =
     (let attempt = (case urlopen (search_request self query channel since limit) of
                       Raised e \<Rightarrow> Inl (Transport e)
                     | Parsed result \<Rightarrow> matches_of limit result)
      in case attempt of Inl e \<Rightarrow> Inr [] | Inr found \<Rightarrow> Inr found)"

section \<open>Requests and fixed environments\<close>

text \<open>The request that \<^verbatim>\<open>post\<close> hands to \<^verbatim>\<open>urlopen\<close> through \<^verbatim>\<open>_api_call\<close>, and the
  one of \<^verbatim>\<open>post_thread\<close>.\<close>

definition post_request ::
  "SlackNotifyAdapter \<Rightarrow> string \<Rightarrow> string option \<Rightarrow> string option \<Rightarrow> string option \<Rightarrow> request" where
  "post_request self message channel username icon =
     api_request self ''chat.postMessage'' (post_payload self message channel username icon)"

definition post_thread_request ::
  "SlackNotifyAdapter \<Rightarrow> string \<Rightarrow> string \<Rightarrow> string option \<Rightarrow> request" where
  "post_thread_request self thread_id message channel =
     api_request self ''chat.postMessage'' (post_thread_payload self thread_id message channel)"

text \<open>A remote that gives the same outcome to every request, as the patched
  \<^verbatim>\<open>urlopen\<close> of \<^verbatim>\<open>tests/test_adapter.py\<close> does, and a \<open>repr\<close> for the runs in which
  only strings are formatted.\<close>

definition always :: "remote \<Rightarrow> request \<Rightarrow> remote" where
  "always outcome req = outcome"

definition opaque_repr :: "json \<Rightarrow> string" where
  "opaque_repr v = ''<repr>''"

definition herd :: SlackNotifyAdapter where
  "herd = \<lparr>token = ''xoxb-test'', default_channel = ''#herd-feed''\<rparr>"

text \<open>The destination as the specification resolves it: the explicit destination when
  one is given, the default otherwise.\<close>

definition spec_destination :: "string option \<Rightarrow> string \<Rightarrow> string" where
  "spec_destination explicit dflt = (case explicit of Some c \<Rightarrow> c | None \<Rightarrow> dflt)"

section \<open>How \<^verbatim>\<open>post\<close> and \<^verbatim>\<open>post_thread\<close> end\<close>

lemma post_Parsed:
  "urlopen (post_request self message channel username icon) = Parsed result \<Longrightarrow>
   post repr urlopen self message channel username icon = post_result repr result"
  by (simp add: post_def post_request_def api_call_def)

lemma post_thread_Parsed:
  "urlopen (post_thread_request self thread_id message channel) = Parsed result \<Longrightarrow>
   post_thread repr urlopen self thread_id message channel = post_result repr result"
  by (simp add: post_thread_def post_thread_request_def api_call_def)

lemma post_Raised:
  "urlopen (post_request self message channel username icon) = Raised e \<Longrightarrow>
   post repr urlopen self message channel username icon =
     Inl (RuntimeError (case e of
            HTTPError code reason \<Rightarrow> ''HTTP error: '' @ str_int code @ '' '' @ reason
          | OtherException s \<Rightarrow> ''Request failed: '' @ s))"
  by (simp add: post_def post_request_def api_call_def split: transport_error.splits)

lemma post_thread_Raised:
  "urlopen (post_thread_request self thread_id message channel) = Raised e \<Longrightarrow>
   post_thread repr urlopen self thread_id message channel =
     Inl (RuntimeError (case e of
            HTTPError code reason \<Rightarrow> ''HTTP error: '' @ str_int code @ '' '' @ reason
          | OtherException s \<Rightarrow> ''Request failed: '' @ s))"
  by (simp add: post_thread_def post_thread_request_def api_call_def split: transport_error.splits)

lemma post_result_not_ok:
  "\<not> ok_flag d \<Longrightarrow>
   post_result repr (JObj d) =
     Inl (RuntimeError (''Slack API error: '' @
            (case map_of d ''error'' of
               None \<Rightarrow> ''unknown error''
             | Some v \<Rightarrow> format_value repr v)))"
  by (simp add: post_result_def dict_get_def format_value_def split: option.splits)

lemma post_result_ok:
  "ok_flag d \<Longrightarrow>
   post_result repr (JObj d) =
     (case map_of d ''ts'' of
        None \<Rightarrow> Inl (KeyError ''ts'')
      | Some ts \<Rightarrow>
          (case map_of d ''channel'' of
             None \<Rightarrow> Inl (KeyError ''channel'')
           | Some c \<Rightarrow> Inr \<lparr>pr_message_id = ts, pr_channel = c, pr_timestamp = ts\<rparr>))"
  by (simp add: post_result_def)

section \<open>The claims\<close>

text \<open>
  \<^bold>\<open>C1\<close>. When the response to \<^verbatim>\<open>post\<close> or \<^verbatim>\<open>post_thread\<close> is a document whose
  \<^verbatim>\<open>ok\<close> flag is false, the operation raises a \<^verbatim>\<open>RuntimeError\<close> whose message contains
  the reported \<^verbatim>\<open>error\<close> value as the f-string prints it (a string code as it is), and
  the literal \<^verbatim>\<open>unknown error\<close> when the document has no \<^verbatim>\<open>error\<close> field.
\<close>

theorem api_error_message:
  "(urlopen (post_request self message channel username icon) = Parsed (JObj d) \<and> \<not> ok_flag d \<longrightarrow>
      (\<exists>msg. post repr urlopen self message channel username icon = Inl (RuntimeError msg)
         \<and> sublist (case map_of d ''error'' of
                       None \<Rightarrow> ''unknown error''
                     | Some v \<Rightarrow> format_value repr v) msg))
   \<and> (urlopen (post_thread_request self thread_id message channel) = Parsed (JObj d) \<and> \<not> ok_flag d \<longrightarrow>
      (\<exists>msg. post_thread repr urlopen self thread_id message channel = Inl (RuntimeError msg)
         \<and> sublist (case map_of d ''error'' of
                       None \<Rightarrow> ''unknown error''
                     | Some v \<Rightarrow> format_value repr v) msg))
   \<and> format_value repr (JStr code) = code"
proof (intro conjI impI)
  let ?reported = "case map_of d ''error'' of
                     None \<Rightarrow> ''unknown error''
                   | Some v \<Rightarrow> format_value repr v"
  {
    assume "urlopen (post_request self message channel username icon) = Parsed (JObj d) \<and> \<not> ok_flag d"
    then have eq: "post repr urlopen self message channel username icon =
        Inl (RuntimeError (''Slack API error: '' @ ?reported))"
      by (simp add: post_Parsed post_result_not_ok)
    show "\<exists>msg. post repr urlopen self message channel username icon = Inl (RuntimeError msg)
           \<and> sublist ?reported msg"
    proof (intro exI conjI)
      show "post repr urlopen self message channel username icon =
        Inl (RuntimeError (''Slack API error: '' @ ?reported))"
        by (rule eq)
      show "sublist ?reported (''Slack API error: '' @ ?reported)"
        by (rule sublist_append_leftI)
    qed
  }
  {
    assume "urlopen (post_thread_request self thread_id message channel) = Parsed (JObj d) \<and> \<not> ok_flag d"
    then have eq: "post_thread repr urlopen self thread_id message channel =
        Inl (RuntimeError (''Slack API error: '' @ ?reported))"
      by (simp add: post_thread_Parsed post_result_not_ok)
    show "\<exists>msg. post_thread repr urlopen self thread_id message channel = Inl (RuntimeError msg)
           \<and> sublist ?reported msg"
    proof (intro exI conjI)
      show "post_thread repr urlopen self thread_id message channel =
        Inl (RuntimeError (''Slack API error: '' @ ?reported))"
        by (rule eq)
      show "sublist ?reported (''Slack API error: '' @ ?reported)"
        by (rule sublist_append_leftI)
    qed
  }
  show "format_value repr (JStr code) = code"
    by (simp add: format_value_def)
qed

theorem api_error_message_witness:
  "always (Parsed (JObj [(''ok'', JBool False), (''error'', JStr ''invalid_auth'')]))
       (post_request herd ''Test message'' None None None)
     = Parsed (JObj [(''ok'', JBool False), (''error'', JStr ''invalid_auth'')])
   \<and> \<not> ok_flag [(''ok'', JBool False), (''error'', JStr ''invalid_auth'')]
   \<and> (\<exists>msg. post opaque_repr
        (always (Parsed (JObj [(''ok'', JBool False), (''error'', JStr ''invalid_auth'')])))
        herd ''Test message'' None None None
     = Inl (RuntimeError msg) \<and> sublist ''invalid_auth'' msg)
   \<and> always (Parsed (JObj [(''ok'', JBool False)])) (post_thread_request herd ''1234567890.123456'' ''Reply'' None)
     = Parsed (JObj [(''ok'', JBool False)])
   \<and> \<not> ok_flag [(''ok'', JBool False)]
   \<and> (\<exists>msg. post_thread opaque_repr (always (Parsed (JObj [(''ok'', JBool False)])))
        herd ''1234567890.123456'' ''Reply'' None
     = Inl (RuntimeError msg) \<and> sublist ''unknown error'' msg)"
proof -
  have a: "always (Parsed (JObj [(''ok'', JBool False), (''error'', JStr ''invalid_auth'')]))
       (post_request herd ''Test message'' None None None)
     = Parsed (JObj [(''ok'', JBool False), (''error'', JStr ''invalid_auth'')])"
    by (simp add: always_def)
  have b: "\<not> ok_flag [(''ok'', JBool False), (''error'', JStr ''invalid_auth'')]"
    by (simp add: ok_flag_def)
  have c: "(case map_of [(''ok'', JBool False), (''error'', JStr ''invalid_auth'')] ''error'' of
              None \<Rightarrow> ''unknown error''
            | Some v \<Rightarrow> format_value opaque_repr v) = ''invalid_auth''"
    by (simp add: format_value_def)
  have a': "always (Parsed (JObj [(''ok'', JBool False)]))
       (post_thread_request herd ''1234567890.123456'' ''Reply'' None)
     = Parsed (JObj [(''ok'', JBool False)])"
    by (simp add: always_def)
  have b': "\<not> ok_flag [(''ok'', JBool False)]"
    by (simp add: ok_flag_def)
  have c': "(case map_of [(''ok'', JBool False)] ''error'' of
              None \<Rightarrow> ''unknown error''
            | Some v \<Rightarrow> format_value opaque_repr v) = ''unknown error''"
    by simp
  from api_error_message [where urlopen = "always (Parsed (JObj [(''ok'', JBool False), (''error'', JStr ''invalid_auth'')]))"
      and self = herd and message = "''Test message''" and channel = None and username = None
      and icon = None and d = "[(''ok'', JBool False), (''error'', JStr ''invalid_auth'')]"
      and repr = opaque_repr] a b
  have p: "\<exists>msg. post opaque_repr
        (always (Parsed (JObj [(''ok'', JBool False), (''error'', JStr ''invalid_auth'')])))
        herd ''Test message'' None None None
     = Inl (RuntimeError msg) \<and> sublist ''invalid_auth'' msg"
    unfolding c by blast
  from api_error_message [where urlopen = "always (Parsed (JObj [(''ok'', JBool False)]))"
      and self = herd and message = "''Reply''" and channel = None
      and thread_id = "''1234567890.123456''" and d = "[(''ok'', JBool False)]"
      and repr = opaque_repr] a' b'
  have q: "\<exists>msg. post_thread opaque_repr (always (Parsed (JObj [(''ok'', JBool False)])))
        herd ''1234567890.123456'' ''Reply'' None
     = Inl (RuntimeError msg) \<and> sublist ''unknown error'' msg"
    unfolding c' by blast
  from a b p a' b' q show ?thesis by blast
qed

text \<open>
  \<^bold>\<open>C3\<close>. When the response to \<^verbatim>\<open>post\<close> has a true \<^verbatim>\<open>ok\<close> flag, a returned
  \<^verbatim>\<open>PostResult\<close> has \<^verbatim>\<open>message_id\<close> and \<^verbatim>\<open>timestamp\<close> equal to the \<^verbatim>\<open>ts\<close> field of
  the response and \<^verbatim>\<open>channel\<close> equal to its \<^verbatim>\<open>channel\<close> field, whatever destination the
  caller asked for; and a response that carries both fields does return that result.
\<close>

theorem post_success_result:
  "urlopen (post_request self message channel username icon) = Parsed (JObj d) \<and> ok_flag d \<longrightarrow>
     (\<forall>r. post repr urlopen self message channel username icon = Inr r \<longrightarrow>
         map_of d ''ts'' = Some (pr_message_id r) \<and> map_of d ''ts'' = Some (pr_timestamp r)
         \<and> map_of d ''channel'' = Some (pr_channel r))
     \<and> (\<forall>ts c. map_of d ''ts'' = Some ts \<and> map_of d ''channel'' = Some c \<longrightarrow>
         post repr urlopen self message channel username icon
           = Inr \<lparr>pr_message_id = ts, pr_channel = c, pr_timestamp = ts\<rparr>)"
  by (auto simp: post_Parsed post_result_ok split: option.splits)

theorem post_success_result_witness:
  "always (Parsed (JObj [(''ok'', JBool True), (''ts'', JStr ''1234567890.123456''), (''channel'', JStr ''C123456'')]))
       (post_request herd ''Test message'' (Some ''#test'') (Some ''TestBot'') (Some '':robot:''))
     = Parsed (JObj [(''ok'', JBool True), (''ts'', JStr ''1234567890.123456''), (''channel'', JStr ''C123456'')])
   \<and> ok_flag [(''ok'', JBool True), (''ts'', JStr ''1234567890.123456''), (''channel'', JStr ''C123456'')]
   \<and> post opaque_repr
        (always (Parsed (JObj [(''ok'', JBool True), (''ts'', JStr ''1234567890.123456''), (''channel'', JStr ''C123456'')])))
        herd ''Test message'' (Some ''#test'') (Some ''TestBot'') (Some '':robot:'')
      = Inr \<lparr>pr_message_id = JStr ''1234567890.123456'', pr_channel = JStr ''C123456'',
              pr_timestamp = JStr ''1234567890.123456''\<rparr>"
  using post_success_result [of "always (Parsed (JObj [(''ok'', JBool True), (''ts'', JStr ''1234567890.123456''), (''channel'', JStr ''C123456'')]))"
      herd "''Test message''" "Some ''#test''" "Some ''TestBot''" "Some '':robot:''"
      "[(''ok'', JBool True), (''ts'', JStr ''1234567890.123456''), (''channel'', JStr ''C123456'')]" opaque_repr]
  by (simp add: always_def ok_flag_def)

text \<open>
  \<^bold>\<open>C9\<close>. When the transport fails during \<^verbatim>\<open>post\<close> or \<^verbatim>\<open>post_thread\<close>, the operation
  raises a \<^verbatim>\<open>RuntimeError\<close>: for an \<^verbatim>\<open>HTTPError\<close> the message is \<^verbatim>\<open>HTTP error:\<close>
  followed by the status code and the reason phrase (so it contains both), for any other
  exception it is the generic \<^verbatim>\<open>Request failed:\<close> followed by the exception's text.
\<close>

theorem transport_failure_message:
  "(urlopen (post_request self message channel username icon) = Raised (HTTPError code reason) \<longrightarrow>
      post repr urlopen self message channel username icon =
        Inl (RuntimeError (''HTTP error: '' @ str_int code @ '' '' @ reason)))
   \<and> (urlopen (post_request self message channel username icon) = Raised (OtherException e) \<longrightarrow>
      post repr urlopen self message channel username icon =
        Inl (RuntimeError (''Request failed: '' @ e)))
   \<and> (urlopen (post_thread_request self thread_id message channel) = Raised (HTTPError code reason) \<longrightarrow>
      post_thread repr urlopen self thread_id message channel =
        Inl (RuntimeError (''HTTP error: '' @ str_int code @ '' '' @ reason)))
   \<and> (urlopen (post_thread_request self thread_id message channel) = Raised (OtherException e) \<longrightarrow>
      post_thread repr urlopen self thread_id message channel =
        Inl (RuntimeError (''Request failed: '' @ e)))
   \<and> sublist (str_int code) (''HTTP error: '' @ str_int code @ '' '' @ reason)
   \<and> sublist reason (''HTTP error: '' @ str_int code @ '' '' @ reason)"
proof (intro conjI impI)
  show "sublist (str_int code) (''HTTP error: '' @ str_int code @ '' '' @ reason)"
    by (rule sublist_appendI)
  have "sublist reason ((''HTTP error: '' @ str_int code @ '' '') @ reason)"
    by (rule sublist_append_leftI)
  then show "sublist reason (''HTTP error: '' @ str_int code @ '' '' @ reason)"
    by (simp only: append_assoc)
qed (simp_all add: post_Raised post_thread_Raised)

theorem transport_failure_message_witness:
  "always (Raised (HTTPError 401 ''Unauthorized'')) (post_request herd ''Test message'' None None None)
     = Raised (HTTPError 401 ''Unauthorized'')
   \<and> post opaque_repr (always (Raised (HTTPError 401 ''Unauthorized''))) herd ''Test message'' None None None
     = Inl (RuntimeError ''HTTP error: 401 Unauthorized'')
   \<and> sublist ''401'' ''HTTP error: 401 Unauthorized''
   \<and> always (Raised (OtherException ''Network error''))
        (post_thread_request herd ''1234567890.123456'' ''Reply'' None)
     = Raised (OtherException ''Network error'')
   \<and> post_thread opaque_repr (always (Raised (OtherException ''Network error'')))
        herd ''1234567890.123456'' ''Reply'' None
     = Inl (RuntimeError ''Request failed: Network error'')"
  using transport_failure_message [where urlopen = "always (Raised (HTTPError 401 ''Unauthorized''))"
      and self = herd and message = "''Test message''" and channel = None and username = None
      and icon = None and code = 401 and reason = "''Unauthorized''" and repr = opaque_repr]
    transport_failure_message [where urlopen = "always (Raised (OtherException ''Network error''))"
      and self = herd and message = "''Reply''" and channel = None
      and thread_id = "''1234567890.123456''" and e = "''Network error''" and repr = opaque_repr
      and code = 401 and reason = "''Unauthorized''"]
  by (simp add: always_def str_int_def str_nat.simps digit_def)

text \<open>
  \<^bold>\<open>C10\<close>. A response with a true \<^verbatim>\<open>ok\<close> flag that lacks \<^verbatim>\<open>ts\<close>, or has \<^verbatim>\<open>ts\<close> and
  lacks \<^verbatim>\<open>channel\<close>, makes \<^verbatim>\<open>post\<close> and \<^verbatim>\<open>post_thread\<close> end with a \<^verbatim>\<open>KeyError\<close> for
  the missing key, not with a \<^verbatim>\<open>RuntimeError\<close> and not with a \<^verbatim>\<open>PostResult\<close>.
\<close>

theorem post_success_missing_field:
  "(urlopen (post_request self message channel username icon) = Parsed (JObj d) \<and> ok_flag d
      \<and> map_of d ''ts'' = None \<longrightarrow>
        post repr urlopen self message channel username icon = Inl (KeyError ''ts''))
   \<and> (urlopen (post_request self message channel username icon) = Parsed (JObj d) \<and> ok_flag d
      \<and> map_of d ''ts'' \<noteq> None \<and> map_of d ''channel'' = None \<longrightarrow>
        post repr urlopen self message channel username icon = Inl (KeyError ''channel''))
   \<and> (urlopen (post_thread_request self thread_id message channel) = Parsed (JObj d) \<and> ok_flag d
      \<and> map_of d ''ts'' = None \<longrightarrow>
        post_thread repr urlopen self thread_id message channel = Inl (KeyError ''ts''))
   \<and> (urlopen (post_thread_request self thread_id message channel) = Parsed (JObj d) \<and> ok_flag d
      \<and> map_of d ''ts'' \<noteq> None \<and> map_of d ''channel'' = None \<longrightarrow>
        post_thread repr urlopen self thread_id message channel = Inl (KeyError ''channel''))"
  by (auto simp: post_Parsed post_thread_Parsed post_result_ok split: option.splits)

theorem post_success_missing_field_witness:
  "always (Parsed (JObj [(''ok'', JBool True), (''channel'', JStr ''C123456'')]))
       (post_request herd ''Test message'' None None None)
     = Parsed (JObj [(''ok'', JBool True), (''channel'', JStr ''C123456'')])
   \<and> ok_flag [(''ok'', JBool True), (''channel'', JStr ''C123456'')]
   \<and> map_of [(''ok'', JBool True), (''channel'', JStr ''C123456'')] ''ts'' = None
   \<and> post opaque_repr (always (Parsed (JObj [(''ok'', JBool True), (''channel'', JStr ''C123456'')])))
        herd ''Test message'' None None None
      = Inl (KeyError ''ts'')
   \<and> always (Parsed (JObj [(''ok'', JBool True), (''ts'', JStr ''1234567890.123457'')]))
       (post_thread_request herd ''1234567890.123456'' ''Reply'' None)
     = Parsed (JObj [(''ok'', JBool True), (''ts'', JStr ''1234567890.123457'')])
   \<and> ok_flag [(''ok'', JBool True), (''ts'', JStr ''1234567890.123457'')]
   \<and> map_of [(''ok'', JBool True), (''ts'', JStr ''1234567890.123457'')] ''ts'' \<noteq> None
   \<and> map_of [(''ok'', JBool True), (''ts'', JStr ''1234567890.123457'')] ''channel'' = None
   \<and> post_thread opaque_repr
        (always (Parsed (JObj [(''ok'', JBool True), (''ts'', JStr ''1234567890.123457'')])))
        herd ''1234567890.123456'' ''Reply'' None
      = Inl (KeyError ''channel'')"
  using post_success_missing_field [where urlopen = "always (Parsed (JObj [(''ok'', JBool True), (''channel'', JStr ''C123456'')]))"
      and self = herd and message = "''Test message''" and channel = None and username = None
      and icon = None and d = "[(''ok'', JBool True), (''channel'', JStr ''C123456'')]"
      and repr = opaque_repr]
    post_success_missing_field [where urlopen = "always (Parsed (JObj [(''ok'', JBool True), (''ts'', JStr ''1234567890.123457'')]))"
      and self = herd and message = "''Reply''" and channel = None
      and thread_id = "''1234567890.123456''"
      and d = "[(''ok'', JBool True), (''ts'', JStr ''1234567890.123457'')]"
      and repr = opaque_repr]
  by (simp add: always_def ok_flag_def)

section \<open>How \<^verbatim>\<open>get_thread_replies\<close> and \<^verbatim>\<open>search\<close> end\<close>

lemma comprehension_map_JObj:
  "(\<And>m. f (JObj m) = Inr (g m)) \<Longrightarrow> comprehension f (map JObj ms) = Inr (map g ms)"
  by (induction ms) simp_all


lemma reply_message_JObj:
  "reply_message (JObj m) =
     Inr \<lparr>tm_author = (case map_of m ''user'' of None \<Rightarrow> JStr ''unknown'' | Some v \<Rightarrow> v),
          tm_text = (case map_of m ''text'' of None \<Rightarrow> JStr '''' | Some v \<Rightarrow> v),
          tm_timestamp = (case map_of m ''ts'' of None \<Rightarrow> JStr '''' | Some v \<Rightarrow> v)\<rparr>"
  by (simp add: reply_message_def dict_get_def)


lemma replies_of_messages:
  assumes "ok_flag d" and "map_of d ''messages'' = Some (JArr (map JObj ms))"
  shows "replies_of (JObj d) =
     Inr (map (\<lambda>m. \<lparr>tm_author = (case map_of m ''user'' of None \<Rightarrow> JStr ''unknown'' | Some v \<Rightarrow> v),
                     tm_text = (case map_of m ''text'' of None \<Rightarrow> JStr '''' | Some v \<Rightarrow> v),
                     tm_timestamp = (case map_of m ''ts'' of None \<Rightarrow> JStr '''' | Some v \<Rightarrow> v)\<rparr>)
            (tl ms))"
proof -
  have tl_eq: "(if length (map JObj ms) > 1 then tl (map JObj ms) else []) = map JObj (tl ms)"
    by (cases ms) (simp_all add: map_tl)
  have "comprehension reply_message (map JObj (tl ms)) =
     Inr (map (\<lambda>m. \<lparr>tm_author = (case map_of m ''user'' of None \<Rightarrow> JStr ''unknown'' | Some v \<Rightarrow> v),
                     tm_text = (case map_of m ''text'' of None \<Rightarrow> JStr '''' | Some v \<Rightarrow> v),
                     tm_timestamp = (case map_of m ''ts'' of None \<Rightarrow> JStr '''' | Some v \<Rightarrow> v)\<rparr>)
            (tl ms))"
    by (rule comprehension_map_JObj) (rule reply_message_JObj)
  with assms tl_eq show ?thesis
    by (simp add: replies_of_def dict_get_def Let_def)
qed

lemma get_thread_replies_Parsed:
  "urlopen (replies_request self channel thread_id) = Parsed result \<Longrightarrow>
   get_thread_replies urlopen self channel thread_id =
     (case replies_of result of Inl e \<Rightarrow> Inr [] | Inr replies \<Rightarrow> Inr replies)"
  by (simp add: get_thread_replies_def)













section \<open>The claims on the read operations\<close>



text \<open>
  \<^bold>\<open>C5\<close>. When the response to \<^verbatim>\<open>get_thread_replies\<close> has a true \<^verbatim>\<open>ok\<close> flag and a list
  of \<open>N\<close> message objects, the result is the messages after the first, in their order,
  each as a \<^verbatim>\<open>ThreadMessage\<close> whose text is the \<^verbatim>\<open>text\<close> field (the empty string when
  absent) and whose author is the \<^verbatim>\<open>user\<close> field (\<^verbatim>\<open>unknown\<close> when absent): \<open>N - 1\<close>
  results, none for \<open>N = 1\<close>.
\<close>

theorem thread_replies_exclude_parent:
  "urlopen (replies_request self channel thread_id) = Parsed (JObj d) \<and> ok_flag d
     \<and> map_of d ''messages'' = Some (JArr (map JObj ms)) \<longrightarrow>
   get_thread_replies urlopen self channel thread_id =
     Inr (map (\<lambda>m. \<lparr>tm_author = (case map_of m ''user'' of None \<Rightarrow> JStr ''unknown'' | Some v \<Rightarrow> v),
                     tm_text = (case map_of m ''text'' of None \<Rightarrow> JStr '''' | Some v \<Rightarrow> v),
                     tm_timestamp = (case map_of m ''ts'' of None \<Rightarrow> JStr '''' | Some v \<Rightarrow> v)\<rparr>)
            (tl ms))
   \<and> (\<exists>replies. get_thread_replies urlopen self channel thread_id = Inr replies
         \<and> length replies = length ms - 1)
   \<and> (length ms = 1 \<longrightarrow> get_thread_replies urlopen self channel thread_id = Inr [])"
proof (intro impI)
  assume a: "urlopen (replies_request self channel thread_id) = Parsed (JObj d) \<and> ok_flag d
     \<and> map_of d ''messages'' = Some (JArr (map JObj ms))"
  let ?f = "\<lambda>m. \<lparr>tm_author = (case map_of m ''user'' of None \<Rightarrow> JStr ''unknown'' | Some v \<Rightarrow> v),
                     tm_text = (case map_of m ''text'' of None \<Rightarrow> JStr '''' | Some v \<Rightarrow> v),
                     tm_timestamp = (case map_of m ''ts'' of None \<Rightarrow> JStr '''' | Some v \<Rightarrow> v)\<rparr>"
  from a have eq: "get_thread_replies urlopen self channel thread_id = Inr (map ?f (tl ms))"
    by (simp add: get_thread_replies_Parsed replies_of_messages)
  have one: "length ms = 1 \<Longrightarrow> tl ms = []"
    by (cases ms) simp_all
  show "get_thread_replies urlopen self channel thread_id = Inr (map ?f (tl ms))
   \<and> (\<exists>replies. get_thread_replies urlopen self channel thread_id = Inr replies
         \<and> length replies = length ms - 1)
   \<and> (length ms = 1 \<longrightarrow> get_thread_replies urlopen self channel thread_id = Inr [])"
    using eq one by simp
qed

theorem thread_replies_exclude_parent_witness:
  "always (Parsed (JObj [(''ok'', JBool True), (''messages'', JArr (map JObj
        [[(''user'', JStr ''U123''), (''text'', JStr ''Parent message''), (''ts'', JStr ''1.1'')],
         [(''user'', JStr ''U456''), (''text'', JStr ''First reply''), (''ts'', JStr ''1.2'')],
         [(''ts'', JStr ''1.3'')]]))]))
      (replies_request herd ''C123456'' ''1.1'')
    = Parsed (JObj [(''ok'', JBool True), (''messages'', JArr (map JObj
        [[(''user'', JStr ''U123''), (''text'', JStr ''Parent message''), (''ts'', JStr ''1.1'')],
         [(''user'', JStr ''U456''), (''text'', JStr ''First reply''), (''ts'', JStr ''1.2'')],
         [(''ts'', JStr ''1.3'')]]))])
   \<and> ok_flag [(''ok'', JBool True), (''messages'', JArr (map JObj
        [[(''user'', JStr ''U123''), (''text'', JStr ''Parent message''), (''ts'', JStr ''1.1'')],
         [(''user'', JStr ''U456''), (''text'', JStr ''First reply''), (''ts'', JStr ''1.2'')],
         [(''ts'', JStr ''1.3'')]]))]
   \<and> get_thread_replies
        (always (Parsed (JObj [(''ok'', JBool True), (''messages'', JArr (map JObj
          [[(''user'', JStr ''U123''), (''text'', JStr ''Parent message''), (''ts'', JStr ''1.1'')],
           [(''user'', JStr ''U456''), (''text'', JStr ''First reply''), (''ts'', JStr ''1.2'')],
           [(''ts'', JStr ''1.3'')]]))])))
        herd ''C123456'' ''1.1''
      = Inr [\<lparr>tm_author = JStr ''U456'', tm_text = JStr ''First reply'', tm_timestamp = JStr ''1.2''\<rparr>,
             \<lparr>tm_author = JStr ''unknown'', tm_text = JStr '''', tm_timestamp = JStr ''1.3''\<rparr>]"
  using thread_replies_exclude_parent [of
      "always (Parsed (JObj [(''ok'', JBool True), (''messages'', JArr (map JObj
        [[(''user'', JStr ''U123''), (''text'', JStr ''Parent message''), (''ts'', JStr ''1.1'')],
         [(''user'', JStr ''U456''), (''text'', JStr ''First reply''), (''ts'', JStr ''1.2'')],
         [(''ts'', JStr ''1.3'')]]))]))"
      herd "''C123456''" "''1.1''"
      "[(''ok'', JBool True), (''messages'', JArr (map JObj
        [[(''user'', JStr ''U123''), (''text'', JStr ''Parent message''), (''ts'', JStr ''1.1'')],
         [(''user'', JStr ''U456''), (''text'', JStr ''First reply''), (''ts'', JStr ''1.2'')],
         [(''ts'', JStr ''1.3'')]]))]"
      "[[(''user'', JStr ''U123''), (''text'', JStr ''Parent message''), (''ts'', JStr ''1.1'')],
         [(''user'', JStr ''U456''), (''text'', JStr ''First reply''), (''ts'', JStr ''1.2'')],
         [(''ts'', JStr ''1.3'')]]"]
  by (simp add: always_def ok_flag_def)




section \<open>The requests that are sent\<close>

lemma post_payload_eq:
  "post_payload self message channel username icon =
     [(''channel'', JStr (str_or channel (default_channel self))), (''text'', JStr message)]
       @ (case username of None \<Rightarrow> [] | Some u \<Rightarrow> if u = [] then [] else [(''username'', JStr u)])
       @ (case icon of None \<Rightarrow> [] | Some i \<Rightarrow> if i = [] then [] else [(''icon_emoji'', JStr i)])"
  by (simp add: post_payload_def split: option.splits)

lemma search_query_eq:
  "search_query query channel since =
     query @ (case channel of None \<Rightarrow> [] | Some c \<Rightarrow> if c = [] then [] else '' in:'' @ c)
       @ (case since of None \<Rightarrow> [] | Some d \<Rightarrow> '' after:'' @ strftime_Y_m_d d)"
  by (simp add: search_query_def split: option.splits)




lemma str_nat_nonempty: "str_nat n \<noteq> []"
  by (simp add: str_nat.simps [of n])




section \<open>The claims on the outbound requests\<close>

text \<open>
  \<^bold>\<open>C4\<close>. The claim that every operation sends the explicit destination when one is
  supplied and the default otherwise fails twice: \<^verbatim>\<open>post\<close> with the empty string as its
  explicit destination sends the default (\<^verbatim>\<open>channel or self.default_channel\<close>), and
  \<^verbatim>\<open>search\<close> without a destination sends a query that does not mention the default.
\<close>

theorem destination_resolution_counterexample:
  "map_of (post_payload herd ''Test message'' (Some '''') None None) ''channel''
     \<noteq> Some (JStr (spec_destination (Some '''') (default_channel herd)))
   \<and> \<not> sublist (spec_destination None (default_channel herd))
         (search_query ''test query'' None None)"
  by (simp add: post_payload_def herd_def spec_destination_def search_query_def sublist_code)

text \<open>
  \<^bold>\<open>C4\<close>, amended. The payload of \<^verbatim>\<open>post\<close> and of \<^verbatim>\<open>post_thread\<close> carries the explicit
  destination when one is supplied and is not the empty string, and the configured default
  otherwise; this payload is the body of the one request the operation hands to the
  transport. \<^verbatim>\<open>search\<close> adds a destination clause only for a supplied, non-empty
  destination, and its request does not depend on the configured default. No operation
  checks the destination: the equations hold for every string.
\<close>

theorem destination_resolution:
  "map_of (post_payload self message channel username icon) ''channel''
     = Some (JStr (case channel of
                     None \<Rightarrow> default_channel self
                   | Some c \<Rightarrow> if c = [] then default_channel self else c))
   \<and> map_of (post_thread_payload self thread_id message channel) ''channel''
     = Some (JStr (case channel of
                     None \<Rightarrow> default_channel self
                   | Some c \<Rightarrow> if c = [] then default_channel self else c))
   \<and> (channel \<noteq> Some [] \<longrightarrow>
        map_of (post_payload self message channel username icon) ''channel''
          = Some (JStr (spec_destination channel (default_channel self)))
        \<and> map_of (post_thread_payload self thread_id message channel) ''channel''
          = Some (JStr (spec_destination channel (default_channel self))))
   \<and> data (post_request self message channel username icon)
       = Some (post_payload self message channel username icon)
   \<and> data (post_thread_request self thread_id message channel)
       = Some (post_thread_payload self thread_id message channel)
   \<and> post repr urlopen self message channel username icon
       = post repr (always (urlopen (post_request self message channel username icon)))
           self message channel username icon
   \<and> post_thread repr urlopen self thread_id message channel
       = post_thread repr (always (urlopen (post_thread_request self thread_id message channel)))
           self thread_id message channel
   \<and> search_query query channel since =
       query @ (case channel of None \<Rightarrow> [] | Some c \<Rightarrow> if c = [] then [] else '' in:'' @ c)
         @ (case since of None \<Rightarrow> [] | Some d \<Rightarrow> '' after:'' @ strftime_Y_m_d d)
   \<and> search_request (self\<lparr>default_channel := other\<rparr>) query channel since limit
       = search_request self query channel since limit
   \<and> search urlopen self query channel since limit
       = search (always (urlopen (search_request self query channel since limit)))
           self query channel since limit"
proof (intro conjI impI)
  show "search_query query channel since =
       query @ (case channel of None \<Rightarrow> [] | Some c \<Rightarrow> if c = [] then [] else '' in:'' @ c)
         @ (case since of None \<Rightarrow> [] | Some d \<Rightarrow> '' after:'' @ strftime_Y_m_d d)"
    by (rule search_query_eq)
  show "post repr urlopen self message channel username icon
       = post repr (always (urlopen (post_request self message channel username icon)))
           self message channel username icon"
    by (simp add: post_def post_request_def api_call_def always_def)
  show "post_thread repr urlopen self thread_id message channel
       = post_thread repr (always (urlopen (post_thread_request self thread_id message channel)))
           self thread_id message channel"
    by (simp add: post_thread_def post_thread_request_def api_call_def always_def)
  show "search urlopen self query channel since limit
       = search (always (urlopen (search_request self query channel since limit)))
           self query channel since limit"
    by (simp add: search_def always_def)
  show "search_request (self\<lparr>default_channel := other\<rparr>) query channel since limit
       = search_request self query channel since limit"
    by (simp add: search_request_def get_request_def)
  show "data (post_request self message channel username icon)
       = Some (post_payload self message channel username icon)"
    by (simp add: post_request_def api_request_def)
  show "data (post_thread_request self thread_id message channel)
       = Some (post_thread_payload self thread_id message channel)"
    by (simp add: post_thread_request_def api_request_def)
  show "map_of (post_payload self message channel username icon) ''channel''
     = Some (JStr (case channel of
                     None \<Rightarrow> default_channel self
                   | Some c \<Rightarrow> if c = [] then default_channel self else c))"
    by (cases channel) (simp_all add: post_payload_eq)
  show "map_of (post_thread_payload self thread_id message channel) ''channel''
     = Some (JStr (case channel of
                     None \<Rightarrow> default_channel self
                   | Some c \<Rightarrow> if c = [] then default_channel self else c))"
    by (cases channel) (simp_all add: post_thread_payload_def)
next
  assume "channel \<noteq> Some []"
  then show "map_of (post_payload self message channel username icon) ''channel''
          = Some (JStr (spec_destination channel (default_channel self)))"
    by (cases channel) (simp_all add: post_payload_eq spec_destination_def)
next
  assume "channel \<noteq> Some []"
  then show "map_of (post_thread_payload self thread_id message channel) ''channel''
          = Some (JStr (spec_destination channel (default_channel self)))"
    by (cases channel) (simp_all add: post_thread_payload_def spec_destination_def)
qed

theorem destination_resolution_witness:
  "Some ''#test'' \<noteq> Some []
   \<and> map_of (post_payload herd ''Test message'' (Some ''#test'') None None) ''channel''
       = Some (JStr ''#test'')
   \<and> map_of (post_thread_payload herd ''1234567890.123456'' ''Test message'' (Some ''#test'')) ''channel''
       = Some (JStr ''#test'')
   \<and> map_of (post_payload herd ''Test message'' None None None) ''channel''
       = Some (JStr ''#herd-feed'')
   \<and> map_of (post_payload herd ''Test message'' (Some '''') None None) ''channel''
       = Some (JStr ''#herd-feed'')
   \<and> search_query ''test query'' (Some ''#test'') None = ''test query in:#test''
   \<and> search_query ''test query'' None None = ''test query''"
  using destination_resolution [of herd "''Test message''" "Some ''#test''" None None
      "''1234567890.123456''" opaque_repr "always (Parsed JNull)" "''test query''" None "''#other''" 50]
    destination_resolution [of herd "''Test message''" None None None
      "''1234567890.123456''" opaque_repr "always (Parsed JNull)" "''test query''" None "''#other''" 50]
    destination_resolution [of herd "''Test message''" "Some ''''" None None
      "''1234567890.123456''" opaque_repr "always (Parsed JNull)" "''test query''" None "''#other''" 50]
  by (simp add: herd_def spec_destination_def)

text \<open>
  \<^bold>\<open>C7\<close>. The claim that the \<^verbatim>\<open>username\<close> and \<^verbatim>\<open>icon_emoji\<close> keys are present exactly
  when the caller supplied the arguments fails for an argument supplied as the empty
  string: \<^verbatim>\<open>if username:\<close> is false for it and the key is left out.
\<close>

theorem post_payload_empty_username_counterexample:
  "Some '''' \<noteq> (None :: string option)
   \<and> map_of (post_payload herd ''Test message'' None (Some '''') None) ''username'' = None"
  by (simp add: post_payload_def herd_def)

text \<open>
  \<^bold>\<open>C7\<close>, amended. The payload of \<^verbatim>\<open>post\<close> always carries \<^verbatim>\<open>channel\<close> and \<^verbatim>\<open>text\<close>; the
  \<^verbatim>\<open>username\<close> key (and likewise \<^verbatim>\<open>icon_emoji\<close>) is present exactly when the argument was
  supplied with a non-empty string, and then holds that string; it is never present with
  an empty or null value, and the payload has no other key.
\<close>

theorem post_payload_fields:
  "data (post_request self message channel username icon)
     = Some (post_payload self message channel username icon)
   \<and> map_of (post_payload self message channel username icon) ''channel''
       = Some (JStr (str_or channel (default_channel self)))
   \<and> map_of (post_payload self message channel username icon) ''text'' = Some (JStr message)
   \<and> map_of (post_payload self message channel username icon) ''username''
       = (case username of None \<Rightarrow> None | Some u \<Rightarrow> if u = [] then None else Some (JStr u))
   \<and> map_of (post_payload self message channel username icon) ''icon_emoji''
       = (case icon of None \<Rightarrow> None | Some i \<Rightarrow> if i = [] then None else Some (JStr i))
   \<and> (map_of (post_payload self message channel username icon) ''username'' \<noteq> None)
       = str_truthy username
   \<and> (map_of (post_payload self message channel username icon) ''icon_emoji'' \<noteq> None)
       = str_truthy icon
   \<and> map_of (post_payload self message channel username icon) ''username'' \<noteq> Some JNull
   \<and> map_of (post_payload self message channel username icon) ''username'' \<noteq> Some (JStr '''')
   \<and> map_of (post_payload self message channel username icon) ''icon_emoji'' \<noteq> Some JNull
   \<and> map_of (post_payload self message channel username icon) ''icon_emoji'' \<noteq> Some (JStr '''')
   \<and> fst ` set (post_payload self message channel username icon)
       \<subseteq> {''channel'', ''text'', ''username'', ''icon_emoji''}"
proof (intro conjI)
  show "data (post_request self message channel username icon)
     = Some (post_payload self message channel username icon)"
    by (simp add: post_request_def api_request_def)
  show "fst ` set (post_payload self message channel username icon)
       \<subseteq> {''channel'', ''text'', ''username'', ''icon_emoji''}"
    by (auto simp: post_payload_eq split: option.splits if_splits)
  show "(map_of (post_payload self message channel username icon) ''username'' \<noteq> None)
       = str_truthy username"
    by (cases username; cases icon) (simp_all add: post_payload_eq)
  show "(map_of (post_payload self message channel username icon) ''icon_emoji'' \<noteq> None)
       = str_truthy icon"
    by (cases username; cases icon) (simp_all add: post_payload_eq)
qed (simp_all add: post_payload_eq split: option.splits)

theorem post_payload_fields_witness:
  "post_payload herd ''Test message'' (Some ''#test'') (Some ''TestBot'') None
     = [(''channel'', JStr ''#test''), (''text'', JStr ''Test message''), (''username'', JStr ''TestBot'')]
   \<and> map_of (post_payload herd ''Test message'' (Some ''#test'') (Some ''TestBot'') None) ''username''
       = Some (JStr ''TestBot'')
   \<and> map_of (post_payload herd ''Test message'' (Some ''#test'') (Some ''TestBot'') None) ''icon_emoji''
       = None"
  using post_payload_fields [of herd "''Test message''" "Some ''#test''" "Some ''TestBot''" None]
  by (simp add: post_payload_def herd_def)




end
